theory Spec2Isabelle
  imports Complex_Main "HOL-Library.Word" "HOL-Library.Multiset"
begin

section \<open>Conventions\<close>

text \<open>
  The program is TypeScript. A JavaScript \<open>number\<close> that holds an index or an id is
  modelled as \<open>int\<close> or \<open>nat\<close>. Reading a property of \<open>undefined\<close> (an array read out
  of range followed by a field access) raises a \<open>TypeError\<close> in JavaScript; it is a
  value of the type \<open>error\<close> here.

  Every other \<open>number\<close> is an IEEE double, and the entries of a gl-matrix \<open>mat4\<close> are
  32-bit floats. Their values are carried by the type \<open>real\<close>, but where a property
  below speaks of a value that the program computes (a skinning matrix, a trigger
  time, the clock), the operations that compute it are not those of \<open>real\<close>: they
  are the fields of a record \<open>js_math\<close> that every such function takes as its first
  argument. \<open>js_plus\<close> and \<open>js_times\<close> stand for \<open>+\<close> and \<open>*\<close> on doubles, \<open>js_less\<close> and
  \<open>js_ge\<close> for \<open><\<close> and \<open>>=\<close>, \<open>fround\<close> for the rounding of a double to the 32-bit float
  that a store into a \<open>Float32Array\<close> performs, and \<open>EPSILON\<close> for
  \<open>MathConstants.EPSILON\<close> (\<open>../MathHelpers\<close> is not among the sources). Nothing is
  assumed of these operations unless a statement says so, so what is proved of them
  holds for IEEE arithmetic with its rounding, and with the infinities and \<open>NaN\<close>
  as whatever reals are chosen to stand for them. \<open>exact\<close> is the instance without
  rounding; it is used to run the model on inputs whose arithmetic is exact in IEEE
  as well. \<open>ieee\<close> is the instance with rounding.

  The arithmetic inside \<open>func_door\<close>, \<open>func_movelinear\<close> and \<open>math_counter\<close>
  (positions, speeds, the counter value) is that of \<open>real\<close>.
\<close>

datatype error = TypeError

record js_math =
  js_plus :: "real \<Rightarrow> real \<Rightarrow> real"
  js_times :: "real \<Rightarrow> real \<Rightarrow> real"
  js_less :: "real \<Rightarrow> real \<Rightarrow> bool"
  js_ge :: "real \<Rightarrow> real \<Rightarrow> bool"
  fround :: "real \<Rightarrow> real"
  EPSILON :: real

definition exact :: js_math where
  "exact = \<lparr>js_plus = (+), js_times = (*), js_less = (<), js_ge = (\<ge>),
            fround = (\<lambda>x. x), EPSILON = 1 / 1000000\<rparr>"

text \<open>
  \<open>ieee\<close> is IEEE 754 arithmetic on the numbers whose results are normal: the result
  of an operation is the exact result rounded to the nearest number with a
  significand of 53 bits (a double) or, for \<open>fround\<close>, of 24 bits (a 32-bit float),
  a tie going to the even significand. \<open>round_even\<close> rounds to the nearest integer,
  ties to even; \<open>pow2 e\<close> is \<open>2\<close> to the power \<open>e\<close>; \<open>round_sig p x\<close> scales \<open>x\<close> by the
  power of two that puts its leading bit at position \<open>p\<close>, rounds, and scales back.
  Overflow, subnormal results, infinities, \<open>NaN\<close> and the sign of zero are outside
  this instance.
\<close>

definition pow2 :: "int \<Rightarrow> real" where
  "pow2 e = (if 0 \<le> e then 2 ^ nat e else 1 / 2 ^ nat (- e))"

definition round_even :: "real \<Rightarrow> int" where
  "round_even x =
     (let f = \<lfloor>x\<rfloor>; d = x - of_int f
      in if d < 1 / 2 then f else if 1 / 2 < d then f + 1 else if even f then f else f + 1)"

definition round_sig :: "nat \<Rightarrow> real \<Rightarrow> real" where
  "round_sig p x =
     (if x = 0 then 0
      else (let u = pow2 (\<lfloor>log 2 \<bar>x\<bar>\<rfloor> - (int p - 1))
            in of_int (round_even (x / u)) * u))"



section \<open>World pipeline (SourceEngine/Main.ts)\<close>

subsection \<open>BitMap\<close>

text \<open>
  Modelled from the spec: the class \<open>BitMap\<close> (imported from \<open>../BitMap\<close>) is not among
  the sources. The spec calls it "a fixed-size bitset keyed by spatial cluster id",
  "one bit per cluster". It is a list of booleans whose length is the number of bits;
  \<open>getBit\<close> of a position outside the bitmap reads no set bit.
\<close>

type_synonym BitMap = "bool list"

definition getBit :: "BitMap \<Rightarrow> nat \<Rightarrow> bool" where
  "getBit bm i = (i < length bm \<and> bm ! i)"

definition fill :: "BitMap \<Rightarrow> bool \<Rightarrow> BitMap" where
  "fill bm v = replicate (length bm) v"

definition or_bits :: "BitMap \<Rightarrow> BitMap \<Rightarrow> BitMap" where
  "or_bits bm other = map (\<lambda>i. bm ! i \<or> getBit other i) [0..<length bm]"

subsection \<open>BSP data\<close>

text \<open>
  \<open>'b\<close> is the type of bounding boxes (\<open>AABB\<close>, from \<open>../Geometry\<close>, not among the
  sources) and \<open>'p\<close> the type of points. \<open>findLeafForPoint\<close> is a method of \<open>BSPFile\<close>
  (\<open>./BSPFile\<close>, not among the sources); it is a field of the record, so every
  result below holds for any implementation of it.
\<close>

record 'b BSPNode =
  node_bbox :: 'b
  child0 :: int
  child1 :: int

record 'b BSPLeaf =
  leaf_bbox :: 'b
  cluster :: nat
  leaf_surfaces :: "nat list"

record ('p, 'b) BSPFile =
  nodelist :: "'b BSPNode list"
  leaflist :: "'b BSPLeaf list"
  visibility_pvs :: "BitMap list"
  findLeafForPoint :: "'p \<Rightarrow> 'b BSPLeaf option"

subsection \<open>BSPModelRenderer.gatherSurfaces\<close>

text \<open>
  The two tests of the walk, in the order they are executed. \<open>probes\<close> below is a
  history variable: it records each call of \<open>view.frustum.contains\<close> (with the box
  tested) and of \<open>pvs.getBit\<close> (with the cluster tested). No operation reads it.
\<close>

datatype 'b probe = FrustumTest 'b | PVSTest nat

text \<open>
  The state the walk reads and writes: the two output sets (\<open>None\<close> is the
  caller's \<open>null\<close>), and the module-level \<open>scratchAABB\<close> that every frustum test
  overwrites with the transformed box.
\<close>

record 'b GatherState =
  liveSurfaceSet :: "nat set option"
  liveLeafSet :: "nat set option"
  scratchAABB :: 'b
  probes :: "'b probe list"

text \<open>
  \<open>xf b\<close> stands for \<open>scratchAABB.transform(b, this.modelMatrix)\<close> and \<open>contains\<close>
  for \<open>view.frustum.contains\<close>. The recursion follows child indices stored in
  \<open>nodelist\<close>, which nothing forces to form a tree, so the first argument bounds
  the depth of the descent: \<open>None\<close> means the bound was reached.
\<close>

fun gatherSurfaces ::
  "nat \<Rightarrow> ('b \<Rightarrow> 'b) \<Rightarrow> ('b \<Rightarrow> bool) \<Rightarrow> ('p, 'b) BSPFile \<Rightarrow> BitMap \<Rightarrow> int
    \<Rightarrow> 'b GatherState \<Rightarrow> (error + 'b GatherState) option" where
  "gatherSurfaces 0 xf contains bsp pvs nodeid st = None"
| "gatherSurfaces (Suc n) xf contains bsp pvs nodeid st =
    (if nodeid \<ge> 0 then
       (if nat nodeid < length (nodelist bsp) then
          (let node = nodelist bsp ! nat nodeid;
               st1 = st\<lparr>scratchAABB := xf (node_bbox node),
                        probes := probes st @ [FrustumTest (xf (node_bbox node))]\<rparr>
           in if \<not> contains (scratchAABB st1) then Some (Inr st1)
              else (case gatherSurfaces n xf contains bsp pvs (child0 node) st1 of
                      None \<Rightarrow> None
                    | Some (Inl e) \<Rightarrow> Some (Inl e)
                    | Some (Inr st2) \<Rightarrow> gatherSurfaces n xf contains bsp pvs (child1 node) st2))
        else Some (Inl TypeError))
     else
       (let leafnum = nat (- nodeid - 1) in
        if leafnum < length (leaflist bsp) then
          (let leaf = leaflist bsp ! leafnum;
               st1 = st\<lparr>probes := probes st @ [PVSTest (cluster leaf)]\<rparr>
           in if \<not> getBit pvs (cluster leaf) then Some (Inr st1)
              else
                (let st2 = st1\<lparr>scratchAABB := xf (leaf_bbox leaf),
                               probes := probes st1 @ [FrustumTest (xf (leaf_bbox leaf))]\<rparr>
                 in if \<not> contains (scratchAABB st2) then Some (Inr st2)
                    else Some (Inr (st2\<lparr>
                      liveLeafSet := map_option (insert leafnum) (liveLeafSet st2),
                      liveSurfaceSet :=
                        map_option (\<lambda>S. fold insert (leaf_surfaces leaf) S) (liveSurfaceSet st2)\<rparr>))))
        else Some (Inl TypeError)))"

subsection \<open>SourceRenderer.calcPVS and its main-view caller\<close>

text \<open>
  \<open>calcPVS\<close> returns its boolean (or the error raised) together with the bitmap as
  it is when the call ends, since the bitmap is mutated in place.
\<close>

definition calcPVS ::
  "bool \<Rightarrow> ('p, 'b) BSPFile \<Rightarrow> BitMap \<Rightarrow> 'p \<Rightarrow> (error + bool) \<times> BitMap" where
  "calcPVS pvsEnabled bsp pvs cameraPos =
    (if \<not> pvsEnabled then (Inr False, pvs)
     else (case findLeafForPoint bsp cameraPos of
        None \<Rightarrow> (Inr False, pvs)
      | Some leaf \<Rightarrow>
          if cluster leaf \<noteq> 0xFFFF then
            (let pvs1 = fill pvs False in
             if cluster leaf < length (visibility_pvs bsp)
             then (Inr True, or_bits pvs1 (visibility_pvs bsp ! cluster leaf))
             else (Inl TypeError, pvs1))
          else (Inr False, pvs)))"

text \<open>
  One iteration of the \<open>drawWorld\<close> loop of \<open>prepareToRender\<close>: the result is the
  bitmap handed to \<open>prepareToRenderView\<close> for the main view.
\<close>

definition mainViewPVS ::
  "bool \<Rightarrow> ('p, 'b) BSPFile \<Rightarrow> BitMap \<Rightarrow> 'p \<Rightarrow> error + BitMap" where
  "mainViewPVS pvsEnabled bsp pvsScratch cameraPos =
    (case calcPVS pvsEnabled bsp pvsScratch cameraPos of
       (Inl e, pvs') \<Rightarrow> Inl e
     | (Inr ok, pvs') \<Rightarrow> Inr (if \<not> ok then fill pvs' True else pvs'))"

section \<open>Skeletal pipeline (J3D model renderer)\<close>

subsection \<open>Matrices\<close>

text \<open>
  A \<open>mat4\<close> of gl-matrix is a \<open>Float32Array\<close> of 16 numbers in column-major order.
  The operations used below are written entry by entry as gl-matrix computes them,
  each entry with the double operations in the order of the source expression and
  then rounded by the store: \<open>mat4.mul(out, a, b)\<close> stores the product \<open>a \<cdot> b\<close>
  (\<open>out[0] = b0*a00 + b1*a10 + b2*a20 + b3*a30\<close>, and so on),
  \<open>mat4.multiplyScalarAndAdd(out, a, b, s)\<close> stores \<open>a + b \<cdot> s\<close>
  (\<open>out[0] = a[0] + b[0] * scale\<close>), and \<open>mat4.copy\<close> copies the 16 entries from one
  \<open>Float32Array\<close> to another, which rounds nothing. \<open>fill0\<close> is \<open>dst.fill(0)\<close>.
\<close>

type_synonym mat4 = "real list"

definition mat4_identity :: mat4 where
  "mat4_identity = [1, 0, 0, 0,  0, 1, 0, 0,  0, 0, 1, 0,  0, 0, 0, 1]"

definition mat4_mul :: "js_math \<Rightarrow> mat4 \<Rightarrow> mat4 \<Rightarrow> mat4" where
  "mat4_mul ar a b =
     map (\<lambda>k. fround ar
            (js_plus ar
              (js_plus ar
                (js_plus ar
                  (js_times ar (b ! (4 * (k div 4))) (a ! (k mod 4)))
                  (js_times ar (b ! (4 * (k div 4) + 1)) (a ! (4 + k mod 4))))
                (js_times ar (b ! (4 * (k div 4) + 2)) (a ! (8 + k mod 4))))
              (js_times ar (b ! (4 * (k div 4) + 3)) (a ! (12 + k mod 4))))) [0..<16]"




subsection \<open>Visibility slots\<close>

text \<open>
  Modelled from the spec: \<open>IntersectionState\<close> is imported from \<open>../Camera\<close>, which
  is not among the sources. The code names \<open>FULLY_INSIDE\<close> and \<open>FULLY_OUTSIDE\<close>; the
  spec lists the classifications as inside, outside and intersecting, so the third
  value stands for the box that crosses the frustum. An array slot that holds one
  may also hold \<open>undefined\<close> (a read out of range returns it, and an assignment
  stores it), which is \<open>None\<close> here. \<open>js_get\<close> and \<open>js_set\<close> are JavaScript's array
  read and write: a read out of range gives \<open>undefined\<close>, a write out of range
  extends the array.
\<close>

datatype IntersectionState = FULLY_INSIDE | FULLY_OUTSIDE | PARTIAL_INTERSECT

type_synonym vis_slot = "IntersectionState option"

definition js_get :: "'a option list \<Rightarrow> nat \<Rightarrow> 'a option" where
  "js_get xs i = (if i < length xs then xs ! i else None)"

definition js_set :: "'a option list \<Rightarrow> nat \<Rightarrow> 'a option \<Rightarrow> 'a option list" where
  "js_set xs i v =
     (if i < length xs then xs[i := v] else xs @ replicate (i - length xs) None @ [v])"

record ShapeInstanceState =
  matrixArray :: "mat4 list"
  matrixVisibility :: "vis_slot list"

subsection \<open>BMDModelInstance.updateMatrixArray\<close>












subsection \<open>Command_Shape.draw\<close>

text \<open>
  A packet's matrix table holds 16-bit indices; \<open>0xFFFF\<close> has every bit set. The
  calls made on the render helper and the shape helper are collected in \<open>calls\<close>:
  \<open>BindPacketParams\<close> carries the uniform matrices as they are when they are
  uploaded, \<open>DrawSimple p\<close> is \<open>shapeHelpers[p].drawSimple\<close>.
\<close>

datatype gl_call = BindPacketParams "mat4 list" | DrawSimple nat

text \<open>
  \<open>u_PosMtx\<close> is the matrix array of \<open>this.packetParams\<close>, which lives as long as the
  shape command; \<open>posMtxVisibility\<close> is the module-level array of ten slots, shared
  by every shape command. Both keep their contents from one draw to the next.
\<close>

record DrawState =
  u_PosMtx :: "mat4 list"
  posMtxVisibility :: "vis_slot list"
  calls :: "gl_call list"
  drawCallCount :: nat

text \<open>
  The loop over \<open>packet.matrixTable\<close>; \<open>i\<close> is the loop index, the boolean is
  \<open>needsUpload\<close>. \<open>modelView\<close> is the result of \<open>computeModelView\<close>.
\<close>

fun updateMatrixTable ::
  "js_math \<Rightarrow> mat4 \<Rightarrow> ShapeInstanceState \<Rightarrow> 16 word list \<Rightarrow> nat \<Rightarrow> DrawState \<times> bool
    \<Rightarrow> error + DrawState \<times> bool" where
  "updateMatrixTable ar modelView sis [] i (st, needsUpload) = Inr (st, needsUpload)"
| "updateMatrixTable ar modelView sis (matrixIndex # rest) i (st, needsUpload) =
     (if matrixIndex = 0xFFFF then updateMatrixTable ar modelView sis rest (i + 1) (st, needsUpload)
      else
        (let st1 = st\<lparr>posMtxVisibility := js_set (posMtxVisibility st) i
                          (js_get (matrixVisibility sis) (unat matrixIndex))\<rparr>
         in if unat matrixIndex < length (matrixArray sis) \<and> i < length (u_PosMtx st1) then
              updateMatrixTable ar modelView sis rest (i + 1)
                (st1\<lparr>u_PosMtx := (u_PosMtx st1)
                        [i := mat4_mul ar modelView (matrixArray sis ! unat matrixIndex)]\<rparr>, True)
            else Inl TypeError))"

definition frustumCull :: "vis_slot list \<Rightarrow> bool" where
  "frustumCull vis = list_all (\<lambda>v. v = Some FULLY_OUTSIDE) vis"

text \<open>The loop over \<open>this.shape.packets\<close>; \<open>p\<close> is the loop index.\<close>

fun draw_packets ::
  "js_math \<Rightarrow> mat4 \<Rightarrow> ShapeInstanceState \<Rightarrow> 16 word list list \<Rightarrow> nat \<Rightarrow> DrawState \<times> bool
    \<Rightarrow> error + DrawState" where
  "draw_packets ar modelView sis [] p (st, needsUpload) =
     Inr (st\<lparr>drawCallCount := drawCallCount st + 1\<rparr>)"
| "draw_packets ar modelView sis (matrixTable # rest) p (st, needsUpload) =
     (case updateMatrixTable ar modelView sis matrixTable 0 (st, needsUpload) of
        Inl e \<Rightarrow> Inl e
      | Inr (st1, needsUpload1) \<Rightarrow>
          if frustumCull (posMtxVisibility st1) then Inr st1
          else
            (let st2 = (if needsUpload1
                        then st1\<lparr>calls := calls st1 @ [BindPacketParams (u_PosMtx st1)]\<rparr>
                        else st1)
             in draw_packets ar modelView sis rest (p + 1)
                  (st2\<lparr>calls := calls st2 @ [DrawSimple p]\<rparr>, False)))"

definition draw :: "js_math \<Rightarrow> mat4 \<Rightarrow> ShapeInstanceState \<Rightarrow> 16 word list list \<Rightarrow> DrawState \<Rightarrow> error + DrawState" where
  "draw ar modelView sis packets st = draw_packets ar modelView sis packets 0 (st, False)"

section \<open>Entity system\<close>

subsection \<open>Numbers and vectors\<close>

text \<open>
  \<open>timeLeftInSeconds\<close> is the one number of the model that a division produces, and
  the divisor (the configured speed) is \<open>0\<close> when the level gives none, so here the
  non-finite results of JavaScript are kept: \<open>x / 0\<close> is \<open>Infinity\<close>, \<open>-Infinity\<close> or
  \<open>NaN\<close>. Comparisons with \<open>NaN\<close> are false.
\<close>

datatype jsnum = Num real | PosInfinity | NegInfinity | NaN

definition js_div :: "real \<Rightarrow> real \<Rightarrow> jsnum" where
  "js_div x y =
     (if y \<noteq> 0 then Num (x / y)
      else if x > 0 then PosInfinity else if x < 0 then NegInfinity else NaN)"

fun js_le0 :: "jsnum \<Rightarrow> bool" where
  "js_le0 (Num t) = (t \<le> 0)"
| "js_le0 PosInfinity = False"
| "js_le0 NegInfinity = True"
| "js_le0 NaN = False"

fun js_gt0 :: "jsnum \<Rightarrow> bool" where
  "js_gt0 (Num t) = (t > 0)"
| "js_gt0 PosInfinity = True"
| "js_gt0 NegInfinity = False"
| "js_gt0 NaN = False"

fun js_sub :: "jsnum \<Rightarrow> real \<Rightarrow> jsnum" where
  "js_sub (Num t) d = Num (t - d)"
| "js_sub PosInfinity d = PosInfinity"
| "js_sub NegInfinity d = NegInfinity"
| "js_sub NaN d = NaN"

type_synonym vec3 = "real \<times> real \<times> real"

fun vec3_sub :: "vec3 \<Rightarrow> vec3 \<Rightarrow> vec3" where
  "vec3_sub (ax, ay, az) (bx, by, bz) = (ax - bx, ay - by, az - bz)"

fun vec3_length :: "vec3 \<Rightarrow> real" where
  "vec3_length (x, y, z) = sqrt (x * x + y * y + z * z)"

fun vec3_scale :: "vec3 \<Rightarrow> real \<Rightarrow> vec3" where
  "vec3_scale (x, y, z) s = (x * s, y * s, z * s)"

fun vec3_scaleAndAdd :: "vec3 \<Rightarrow> vec3 \<Rightarrow> real \<Rightarrow> vec3" where
  "vec3_scaleAndAdd (ax, ay, az) (bx, by, bz) s = (ax + bx * s, ay + by * s, az + bz * s)"

text \<open>
  \<open>vec3.scale(v, v, 1.0 / t)\<close> for a \<open>t\<close> that may be non-finite: \<open>1 / Infinity\<close> is \<open>0\<close>.
  For \<open>t = NaN\<close> JavaScript stores \<open>NaN\<close> in every component; the model leaves the
  vector as it is, and it is never read while \<open>t\<close> is \<open>NaN\<close> (see \<open>BaseToggle_movement\<close>).
\<close>

fun vec3_scale_recip :: "vec3 \<Rightarrow> jsnum \<Rightarrow> vec3" where
  "vec3_scale_recip v (Num t) = vec3_scale v (1 / t)"
| "vec3_scale_recip v PosInfinity = vec3_scale v 0"
| "vec3_scale_recip v NegInfinity = vec3_scale v 0"
| "vec3_scale_recip v NaN = v"

subsection \<open>Output actions and the entity classes\<close>

record EntityOutputAction =
  a_targetName :: string
  a_inputName :: string
  parameterOverride :: string
  delay :: real
  timesToFire :: real

record QueuedOutputEvent =
  triggerTime :: real
  action :: EntityOutputAction
  ev_value :: string

type_synonym EntityOutput = "EntityOutputAction list"

datatype ToggleState = Top | Bottom | GoingToTop | GoingToBottom

text \<open>
  The classes that \<open>registerDefaultFactories\<close> registers, and the base class, which
  \<open>createEntity\<close> uses for every other class name. A record has the fields that the
  input handlers and \<open>movement\<close> read or write, the outputs among them. The fields
  that only rendering uses are left out: models, angles, material parameters and
  parent transform of the base class, the matrix of \<open>sky_camera\<close>, and the material
  value and the interpolation state of \<open>material_modify_control\<close>. With them
  \<open>sky_camera\<close>, \<open>water_lod_control\<close>, \<open>env_texturetoggle\<close> and
  \<open>material_modify_control\<close> have the fields of the base class. \<open>trigger_once\<close> has
  the fields of \<open>trigger_multiple\<close>. Where two classes give a field the same name,
  the field of the later class has the class name in front
  (\<open>movelinear_output_onFullyClosed\<close>, \<open>trigger_output_onTrigger\<close>). Loading a level
  (\<open>createEntities\<close>, the constructors and \<open>spawn\<close>) is not part of the model: the
  records describe the entities once the level is loaded.
\<close>

record BaseEntity =
  localOrigin :: vec3
  targetName :: "string option"
  alive :: bool
  enabled :: bool

record BaseToggle = BaseEntity +
  speed :: real
  positionOpened :: vec3
  positionClosed :: vec3
  timeLeftInSeconds :: jsnum
  positionTarget :: vec3
  velocityPerSecond :: vec3

record func_movelinear = BaseToggle +
  movelinear_output_onFullyClosed :: EntityOutput
  movelinear_output_onFullyOpen :: EntityOutput

record func_door = BaseToggle +
  output_onClose :: EntityOutput
  output_onOpen :: EntityOutput
  output_onFullyClosed :: EntityOutput
  output_onFullyOpen :: EntityOutput
  locked :: bool
  toggleState :: ToggleState

record logic_auto = BaseEntity +
  output_onMapSpawn :: EntityOutput

record math_counter = BaseEntity +
  counter_min :: real
  counter_max :: real
  counter_value :: real
  minEdgeState :: bool
  maxEdgeState :: bool
  output_outValue :: EntityOutput
  output_onHitMin :: EntityOutput
  output_onHitMax :: EntityOutput

record logic_relay = BaseEntity +
  output_onTrigger :: EntityOutput

record logic_timer = BaseEntity +
  refiretime :: real
  nextFireTime :: real
  output_onTimer :: EntityOutput

record trigger_multiple = BaseEntity +
  isPlayerTouching :: bool
  trigger_output_onTrigger :: EntityOutput
  output_onStartTouch :: EntityOutput
  output_onEndTouch :: EntityOutput
  output_onEndTouchAll :: EntityOutput

datatype Entity =
    Generic BaseEntity
  | SkyCamera BaseEntity
  | WaterLodControl BaseEntity
  | FuncMoveLinear func_movelinear
  | FuncDoor func_door
  | LogicAuto logic_auto
  | LogicRelay logic_relay
  | LogicTimer logic_timer
  | MathCounter math_counter
  | TriggerMultiple trigger_multiple
  | TriggerOnce trigger_multiple
  | EnvTextureToggle BaseEntity
  | MaterialModifyControl BaseEntity

text \<open>
  \<open>dispatched\<close> and \<open>inputLog\<close> are history variables: \<open>dispatched\<close> lists the events
  for which \<open>fireEntityOutputAction\<close> returned \<open>true\<close>, \<open>inputLog\<close> lists the calls of
  \<open>fireInput\<close> as (index of the entity, input name, value). No operation reads them.
\<close>

record EntitySystem =
  entities :: "Entity list"
  currentTime :: real
  outputQueue :: "QueuedOutputEvent list"
  dispatched :: "QueuedOutputEvent list"
  inputLog :: "(nat \<times> string \<times> string) list"

subsection \<open>EntitySystem.queueEntityOutputAction and EntityOutput.fire\<close>

text \<open>
  \<open>this.currentTime + action.delay\<close> is an addition of doubles: \<open>js_plus\<close>.
\<close>

definition queueEntityOutputAction ::
  "js_math \<Rightarrow> EntitySystem \<Rightarrow> EntityOutputAction \<Rightarrow> string \<Rightarrow> EntitySystem" where
  "queueEntityOutputAction ar es act v =
     (let v1 = (if parameterOverride act \<noteq> [] then parameterOverride act else v);
          trig = js_plus ar (currentTime es) (delay act)
      in es\<lparr>outputQueue := outputQueue es @ [\<lparr>triggerTime = trig, action = act, ev_value = v1\<rparr>]\<rparr>)"

fun fire :: "js_math \<Rightarrow> EntityOutput \<Rightarrow> EntitySystem \<Rightarrow> string \<Rightarrow> EntitySystem" where
  "fire ar [] es v = es"
| "fire ar (act # acts) es v = fire ar acts (queueEntityOutputAction ar es act v) v"

subsection \<open>BaseToggle\<close>

text \<open>
  \<open>moveDone\<close> is abstract in \<open>BaseToggle\<close>; the two methods below take the subclass's
  \<open>moveDone\<close> as their first argument.
\<close>

definition moveToTargetPos ::
  "('a BaseToggle_scheme \<Rightarrow> EntitySystem \<Rightarrow> 'a BaseToggle_scheme \<times> EntitySystem)
    \<Rightarrow> 'a BaseToggle_scheme \<Rightarrow> EntitySystem \<Rightarrow> vec3 \<Rightarrow> real
    \<Rightarrow> 'a BaseToggle_scheme \<times> EntitySystem" where
  "moveToTargetPos moveDone this es target speedInSeconds =
     (let this1 = this\<lparr>positionTarget := target\<rparr>;
          this2 = this1\<lparr>velocityPerSecond := vec3_sub (positionTarget this1) (localOrigin this1)\<rparr>;
          this3 = this2\<lparr>timeLeftInSeconds :=
                    js_div (vec3_length (velocityPerSecond this2)) speedInSeconds\<rparr>
      in if js_le0 (timeLeftInSeconds this3) then moveDone this3 es
         else (this3\<lparr>velocityPerSecond :=
                 vec3_scale_recip (velocityPerSecond this3) (timeLeftInSeconds this3)\<rparr>, es))"

definition BaseToggle_movement ::
  "('a BaseToggle_scheme \<Rightarrow> EntitySystem \<Rightarrow> 'a BaseToggle_scheme \<times> EntitySystem)
    \<Rightarrow> 'a BaseToggle_scheme \<Rightarrow> EntitySystem \<Rightarrow> real
    \<Rightarrow> 'a BaseToggle_scheme \<times> EntitySystem" where
  "BaseToggle_movement moveDone this es deltaTimeInSeconds =
     (if js_gt0 (timeLeftInSeconds this) then
        (let this1 = this\<lparr>localOrigin :=
                       vec3_scaleAndAdd (localOrigin this) (velocityPerSecond this) deltaTimeInSeconds\<rparr>;
             this2 = this1\<lparr>timeLeftInSeconds := js_sub (timeLeftInSeconds this1) deltaTimeInSeconds\<rparr>
         in if js_le0 (timeLeftInSeconds this2) then
              moveDone (this2\<lparr>localOrigin := positionTarget this2,
                              velocityPerSecond := (0, 0, 0),
                              timeLeftInSeconds := Num 0\<rparr>) es
            else (this2, es))
      else (this, es))"

subsection \<open>func\_movelinear\<close>





subsection \<open>func\_door\<close>

definition hitTop :: "js_math \<Rightarrow> func_door \<Rightarrow> EntitySystem \<Rightarrow> func_door \<times> EntitySystem" where
  "hitTop ar this es = (this, fire ar (output_onFullyOpen this) es [])"

definition hitBottom :: "js_math \<Rightarrow> func_door \<Rightarrow> EntitySystem \<Rightarrow> func_door \<times> EntitySystem" where
  "hitBottom ar this es = (this, fire ar (output_onFullyClosed this) es [])"

definition moveDone :: "js_math \<Rightarrow> func_door \<Rightarrow> EntitySystem \<Rightarrow> func_door \<times> EntitySystem" where
  "moveDone ar this es =
     (if toggleState this = GoingToTop then hitTop ar this es
      else if toggleState this = GoingToBottom then hitBottom ar this es
      else (this, es))"

definition goToTop :: "js_math \<Rightarrow> func_door \<Rightarrow> EntitySystem \<Rightarrow> func_door \<times> EntitySystem" where
  "goToTop ar this es =
     (let this1 = this\<lparr>toggleState := GoingToTop\<rparr>;
          (this2, es2) = moveToTargetPos (moveDone ar) this1 es (positionOpened this1) (speed this1)
      in (this2, fire ar (output_onOpen this2) es2 []))"

definition goToBottom :: "js_math \<Rightarrow> func_door \<Rightarrow> EntitySystem \<Rightarrow> func_door \<times> EntitySystem" where
  "goToBottom ar this es =
     (let this1 = this\<lparr>toggleState := GoingToBottom\<rparr>;
          (this2, es2) = moveToTargetPos (moveDone ar) this1 es (positionClosed this1) (speed this1)
      in (this2, fire ar (output_onClose this2) es2 []))"


definition input_open :: "js_math \<Rightarrow> func_door \<Rightarrow> EntitySystem \<Rightarrow> func_door \<times> EntitySystem" where
  "input_open ar this es =
     (if toggleState this = Top \<or> toggleState this = GoingToTop then (this, es)
      else if locked this then (this, es)
      else goToTop ar this es)"

definition input_toggle :: "js_math \<Rightarrow> func_door \<Rightarrow> EntitySystem \<Rightarrow> func_door \<times> EntitySystem" where
  "input_toggle ar this es =
     (if locked this then (this, es)
      else if toggleState this = Top then goToTop ar this es
      else if toggleState this = Bottom then goToBottom ar this es
      else (this, es))"

subsection \<open>math\_counter\<close>




subsection \<open>logic\_relay\<close>


subsection \<open>logic\_timer\<close>



subsection \<open>trigger\_multiple and trigger\_once\<close>






subsection \<open>BaseEntity.fireInput\<close>





subsection \<open>EntitySystem\<close>

fun entity_targetName :: "Entity \<Rightarrow> string option" where
  "entity_targetName (Generic this) = targetName this"
| "entity_targetName (SkyCamera this) = targetName this"
| "entity_targetName (WaterLodControl this) = targetName this"
| "entity_targetName (FuncMoveLinear this) = targetName this"
| "entity_targetName (FuncDoor this) = targetName this"
| "entity_targetName (LogicAuto this) = targetName this"
| "entity_targetName (LogicRelay this) = targetName this"
| "entity_targetName (LogicTimer this) = targetName this"
| "entity_targetName (MathCounter this) = targetName this"
| "entity_targetName (TriggerMultiple this) = targetName this"
| "entity_targetName (TriggerOnce this) = targetName this"
| "entity_targetName (EnvTextureToggle this) = targetName this"
| "entity_targetName (MaterialModifyControl this) = targetName this"











subsection \<open>Notions used to state the properties\<close>



text \<open>All output actions that an entity holds.\<close>

fun entity_outputs :: "Entity \<Rightarrow> EntityOutputAction list" where
  "entity_outputs (Generic this) = []"
| "entity_outputs (SkyCamera this) = []"
| "entity_outputs (WaterLodControl this) = []"
| "entity_outputs (FuncMoveLinear this) =
     movelinear_output_onFullyClosed this @ movelinear_output_onFullyOpen this"
| "entity_outputs (FuncDoor this) =
     output_onClose this @ output_onOpen this @ output_onFullyClosed this @ output_onFullyOpen this"
| "entity_outputs (LogicAuto this) = output_onMapSpawn this"
| "entity_outputs (LogicRelay this) = output_onTrigger this"
| "entity_outputs (LogicTimer this) = output_onTimer this"
| "entity_outputs (MathCounter this) =
     output_outValue this @ output_onHitMin this @ output_onHitMax this"
| "entity_outputs (TriggerMultiple this) =
     trigger_output_onTrigger this @ output_onStartTouch this @ output_onEndTouch this
       @ output_onEndTouchAll this"
| "entity_outputs (TriggerOnce this) =
     trigger_output_onTrigger this @ output_onStartTouch this @ output_onEndTouch this
       @ output_onEndTouchAll this"
| "entity_outputs (EnvTextureToggle this) = []"
| "entity_outputs (MaterialModifyControl this) = []"




text \<open>
  \<open>queues_only ar P es es'\<close>: \<open>es'\<close> is \<open>es\<close> with events appended to the output queue,
  each built at the current time from an output action of one of the entities whose
  name satisfies \<open>P\<close>; the time, the list of dispatched events and the entities' names and
  output actions are the same.
\<close>

definition queues_only ::
  "js_math \<Rightarrow> (string option \<Rightarrow> bool) \<Rightarrow> EntitySystem \<Rightarrow> EntitySystem \<Rightarrow> bool" where
  "queues_only ar P es es' =
     (currentTime es' = currentTime es
      \<and> dispatched es' = dispatched es
      \<and> map entity_targetName (entities es') = map entity_targetName (entities es)
      \<and> map entity_outputs (entities es') = map entity_outputs (entities es)
      \<and> (\<exists>new. outputQueue es' = outputQueue es @ new
            \<and> (\<forall>ev \<in> set new. \<exists>e \<in> set (entities es). P (entity_targetName e) \<and> action ev \<in> set (entity_outputs e)
                  \<and> triggerTime ev = js_plus ar (currentTime es) (delay (action ev)))))"

section \<open>Verified properties: world pipeline\<close>

text \<open>
  Claim C1. The leaf index encoding round-trips: for every index \<open>i \<ge> 0\<close> the code
  \<open>-i-1\<close> is negative and decoding it with \<open>-(code)-1\<close> gives \<open>i\<close> again.
  \<open>gatherSurfaces\<close> takes a negative \<open>nodeid\<close> to be the leaf at index \<open>-nodeid-1\<close>:
  called with \<open>-i-1\<close> it reads \<open>leaflist[i]\<close> and adds the leaf number \<open>i\<close> and that
  leaf's surfaces to the output sets when the leaf passes both tests, and it raises
  when there is no such leaf. It takes a \<open>nodeid \<ge> 0\<close> to be an internal node: it
  reads \<open>nodelist[nodeid]\<close>, tests that node's box and descends into both children.
\<close>

theorem leaf_index_roundtrip:
  fixes i :: nat
  shows "- int i - 1 < 0
    \<and> nat (- (- int i - 1) - 1) = i
    \<and> (i < length (leaflist bsp) \<longrightarrow>
         (\<exists>st'. gatherSurfaces (Suc n) xf contains bsp pvs (- int i - 1) st = Some (Inr st')
            \<and> liveLeafSet st' =
                (if getBit pvs (cluster (leaflist bsp ! i)) \<and> contains (xf (leaf_bbox (leaflist bsp ! i)))
                 then map_option (insert i) (liveLeafSet st) else liveLeafSet st)
            \<and> liveSurfaceSet st' =
                (if getBit pvs (cluster (leaflist bsp ! i)) \<and> contains (xf (leaf_bbox (leaflist bsp ! i)))
                 then map_option (\<lambda>S. S \<union> set (leaf_surfaces (leaflist bsp ! i))) (liveSurfaceSet st)
                 else liveSurfaceSet st)))
    \<and> (\<not> i < length (leaflist bsp) \<longrightarrow>
         gatherSurfaces (Suc n) xf contains bsp pvs (- int i - 1) st = Some (Inl TypeError))
    \<and> (i < length (nodelist bsp) \<longrightarrow>
         gatherSurfaces (Suc n) xf contains bsp pvs (int i) st =
           (let node = nodelist bsp ! i;
                st1 = st\<lparr>scratchAABB := xf (node_bbox node),
                         probes := probes st @ [FrustumTest (xf (node_bbox node))]\<rparr>
            in if contains (xf (node_bbox node)) then
                 (case gatherSurfaces n xf contains bsp pvs (child0 node) st1 of
                    None \<Rightarrow> None
                  | Some (Inl e) \<Rightarrow> Some (Inl e)
                  | Some (Inr st2) \<Rightarrow> gatherSurfaces n xf contains bsp pvs (child1 node) st2)
               else Some (Inr st1)))
    \<and> (\<not> i < length (nodelist bsp) \<longrightarrow>
         gatherSurfaces (Suc n) xf contains bsp pvs (int i) st = Some (Inl TypeError))"
proof -
  have "\<And>xs (S::nat set). fold insert xs S = S \<union> set xs"
    by (simp add: List.union_set_fold [symmetric] Un_commute)
  then have fold_ins: "\<And>xs. fold insert xs = (\<lambda>S::nat set. S \<union> set xs)"
    by (intro ext)
  have dec: "nat (- (- int i - 1) - 1) = i" by simp
  show ?thesis
    by (simp add: Let_def fold_ins dec option.map_comp comp_def cong: if_cong)
qed

theorem leaf_index_roundtrip_witness:
  "- int 1 - 1 < 0 \<and> nat (- (- int 1 - 1) - 1) = 1
   \<and> (\<exists>st'. gatherSurfaces (Suc 0) (\<lambda>b. b) (\<lambda>b. b < 10)
          \<lparr>nodelist = [], leaflist = [\<lparr>leaf_bbox = 20::nat, cluster = 0, leaf_surfaces = [9]\<rparr>,
                                       \<lparr>leaf_bbox = 2, cluster = 1, leaf_surfaces = [3, 4]\<rparr>],
           visibility_pvs = [], findLeafForPoint = (\<lambda>u::unit. None)\<rparr>
          [False, True] (- int 1 - 1)
          \<lparr>liveSurfaceSet = Some {}, liveLeafSet = Some {}, scratchAABB = 0, probes = []\<rparr> = Some (Inr st')
        \<and> liveLeafSet st' = Some {1} \<and> liveSurfaceSet st' = Some {3, 4})"
  using leaf_index_roundtrip [of 1
          "\<lparr>nodelist = [], leaflist = [\<lparr>leaf_bbox = 20::nat, cluster = 0, leaf_surfaces = [9]\<rparr>,
                                       \<lparr>leaf_bbox = 2, cluster = 1, leaf_surfaces = [3, 4]\<rparr>],
           visibility_pvs = [], findLeafForPoint = (\<lambda>u::unit. None)\<rparr>"
          0 "\<lambda>b. b" "\<lambda>b. b < 10" "[False, True]"
          "\<lparr>liveSurfaceSet = Some {}, liveLeafSet = Some {}, scratchAABB = 0, probes = []\<rparr>"]
  by (simp add: getBit_def insert_commute)

text \<open>
  Claim C3. When no valid cluster exists for the camera position
  (\<open>findLeafForPoint\<close> returns \<open>null\<close>, or the leaf found has cluster \<open>0xFFFF\<close>),
  \<open>calcPVS\<close> returns \<open>false\<close> and leaves the bitmap alone, and the main-view caller
  then hands on a bitmap of the same size in which every bit is set.
\<close>

theorem pvs_fallback_all_visible:
  assumes "findLeafForPoint bsp cameraPos = None
     \<or> (\<exists>leaf. findLeafForPoint bsp cameraPos = Some leaf \<and> cluster leaf = 0xFFFF)"
  shows "calcPVS pvsEnabled bsp pvs cameraPos = (Inr False, pvs)
     \<and> mainViewPVS pvsEnabled bsp pvs cameraPos = Inr (fill pvs True)
     \<and> length (fill pvs True) = length pvs
     \<and> (\<forall>c < length pvs. getBit (fill pvs True) c)"
  using assms by (auto simp: calcPVS_def mainViewPVS_def getBit_def fill_def split: option.splits)

theorem pvs_fallback_all_visible_witness:
  "calcPVS True \<lparr>nodelist = [], leaflist = [],
          visibility_pvs = [[True, True, True]],
          findLeafForPoint = (\<lambda>p::nat. Some \<lparr>leaf_bbox = (0::nat), cluster = 0xFFFF, leaf_surfaces = []\<rparr>)\<rparr>
        [True, False, False] 7 = (Inr False, [True, False, False])
   \<and> mainViewPVS True \<lparr>nodelist = [], leaflist = [],
          visibility_pvs = [[True, True, True]],
          findLeafForPoint = (\<lambda>p::nat. Some \<lparr>leaf_bbox = (0::nat), cluster = 0xFFFF, leaf_surfaces = []\<rparr>)\<rparr>
        [True, False, False] 7 = Inr [True, True, True]
   \<and> getBit [True, True, True] 1"
  using pvs_fallback_all_visible [of "\<lparr>nodelist = [], leaflist = [],
          visibility_pvs = [[True, True, True]],
          findLeafForPoint = (\<lambda>p::nat. Some \<lparr>leaf_bbox = (0::nat), cluster = 0xFFFF, leaf_surfaces = []\<rparr>)\<rparr>"
        7 True "[True, False, False]"]
  by (simp add: fill_def getBit_def)

text \<open>
  Claim C8, as stated: at every visited leaf the bounding box is tested against the
  frustum first and the PVS bit is tested after it. This fails: for a leaf whose
  cluster is not in the PVS the only test made is the PVS test.
\<close>

theorem leaf_frustum_first_counterexample:
  "\<not> (\<forall>(n::nat) (xf::nat \<Rightarrow> nat) contains (bsp::(unit, nat) BSPFile) pvs (i::nat) st st'.
        i < length (leaflist bsp)
        \<and> gatherSurfaces (Suc n) xf contains bsp pvs (- int i - 1) st = Some (Inr st')
        \<longrightarrow> (\<exists>rest. probes st' = probes st @ FrustumTest (xf (leaf_bbox (leaflist bsp ! i))) # rest))"
proof
  assume a: "\<forall>(n::nat) (xf::nat \<Rightarrow> nat) contains (bsp::(unit, nat) BSPFile) pvs (i::nat) st st'.
        i < length (leaflist bsp)
        \<and> gatherSurfaces (Suc n) xf contains bsp pvs (- int i - 1) st = Some (Inr st')
        \<longrightarrow> (\<exists>rest. probes st' = probes st @ FrustumTest (xf (leaf_bbox (leaflist bsp ! i))) # rest)"
  let ?bsp = "\<lparr>nodelist = [], leaflist = [\<lparr>leaf_bbox = 5::nat, cluster = 0, leaf_surfaces = [3]\<rparr>],
               visibility_pvs = [], findLeafForPoint = (\<lambda>u::unit. None)\<rparr>"
  let ?st = "\<lparr>liveSurfaceSet = Some {}, liveLeafSet = Some {}, scratchAABB = 0::nat, probes = []\<rparr>"
  have run: "gatherSurfaces (Suc 0) (\<lambda>b. b) (\<lambda>b. False) ?bsp [False] (- int 0 - 1) ?st
        = Some (Inr (?st\<lparr>probes := [PVSTest 0]\<rparr>))"
    by (simp add: getBit_def)
  from a [rule_format, of 0 ?bsp 0 "\<lambda>b. b" "\<lambda>b. False" "[False]" ?st "?st\<lparr>probes := [PVSTest 0]\<rparr>"] run
  show False by simp
qed

text \<open>
  Claim C8, amended. At an internal node the transformed box of the node is tested
  against the frustum, and when it is disjoint the walk returns without visiting
  the children. At a leaf the PVS bit of the leaf's cluster is tested first: when it
  is clear the leaf is skipped and no frustum test is made (\<open>scratchAABB\<close> is not
  written); when it is set the leaf's transformed box is tested against the frustum
  next, and the leaf is skipped when that test fails. A leaf that passes both is
  added to the output sets.
\<close>

theorem gatherSurfaces_early_outs:
  "(i < length (nodelist bsp) \<and> \<not> contains (xf (node_bbox (nodelist bsp ! i))) \<longrightarrow>
      gatherSurfaces (Suc n) xf contains bsp pvs (int i) st =
        Some (Inr (st\<lparr>scratchAABB := xf (node_bbox (nodelist bsp ! i)),
                      probes := probes st @ [FrustumTest (xf (node_bbox (nodelist bsp ! i)))]\<rparr>)))
   \<and> (i < length (nodelist bsp) \<and> contains (xf (node_bbox (nodelist bsp ! i))) \<longrightarrow>
      gatherSurfaces (Suc n) xf contains bsp pvs (int i) st =
        (case gatherSurfaces n xf contains bsp pvs (child0 (nodelist bsp ! i))
                (st\<lparr>scratchAABB := xf (node_bbox (nodelist bsp ! i)),
                    probes := probes st @ [FrustumTest (xf (node_bbox (nodelist bsp ! i)))]\<rparr>) of
           None \<Rightarrow> None
         | Some (Inl e) \<Rightarrow> Some (Inl e)
         | Some (Inr st2) \<Rightarrow> gatherSurfaces n xf contains bsp pvs (child1 (nodelist bsp ! i)) st2))
   \<and> (i < length (leaflist bsp) \<and> \<not> getBit pvs (cluster (leaflist bsp ! i)) \<longrightarrow>
      gatherSurfaces (Suc n) xf contains bsp pvs (- int i - 1) st =
        Some (Inr (st\<lparr>probes := probes st @ [PVSTest (cluster (leaflist bsp ! i))]\<rparr>)))
   \<and> (i < length (leaflist bsp) \<and> getBit pvs (cluster (leaflist bsp ! i))
        \<and> \<not> contains (xf (leaf_bbox (leaflist bsp ! i))) \<longrightarrow>
      gatherSurfaces (Suc n) xf contains bsp pvs (- int i - 1) st =
        Some (Inr (st\<lparr>scratchAABB := xf (leaf_bbox (leaflist bsp ! i)),
                      probes := probes st @ [PVSTest (cluster (leaflist bsp ! i)),
                                             FrustumTest (xf (leaf_bbox (leaflist bsp ! i)))]\<rparr>)))
   \<and> (i < length (leaflist bsp) \<and> getBit pvs (cluster (leaflist bsp ! i))
        \<and> contains (xf (leaf_bbox (leaflist bsp ! i))) \<longrightarrow>
      gatherSurfaces (Suc n) xf contains bsp pvs (- int i - 1) st =
        Some (Inr (st\<lparr>scratchAABB := xf (leaf_bbox (leaflist bsp ! i)),
                      probes := probes st @ [PVSTest (cluster (leaflist bsp ! i)),
                                             FrustumTest (xf (leaf_bbox (leaflist bsp ! i)))],
                      liveLeafSet := map_option (insert i) (liveLeafSet st),
                      liveSurfaceSet := map_option (\<lambda>S. fold insert (leaf_surfaces (leaflist bsp ! i)) S)
                                          (liveSurfaceSet st)\<rparr>)))"
  by (simp add: Let_def)

theorem gatherSurfaces_early_outs_witness:
  "gatherSurfaces (Suc (Suc 0)) (\<lambda>b. b + 1) (\<lambda>b. b < 10)
      \<lparr>nodelist = [\<lparr>node_bbox = 1::nat, child0 = - 1, child1 = - 2\<rparr>],
       leaflist = [\<lparr>leaf_bbox = 2, cluster = 0, leaf_surfaces = [3, 4]\<rparr>,
                   \<lparr>leaf_bbox = 20, cluster = 1, leaf_surfaces = [5]\<rparr>],
       visibility_pvs = [], findLeafForPoint = (\<lambda>u::unit. None)\<rparr>
      [True, True] (int 0)
      \<lparr>liveSurfaceSet = Some {}, liveLeafSet = Some {}, scratchAABB = 0, probes = []\<rparr>
    = Some (Inr \<lparr>liveSurfaceSet = Some {3, 4}, liveLeafSet = Some {0}, scratchAABB = 21,
                 probes = [FrustumTest 2, PVSTest 0, FrustumTest 3, PVSTest 1, FrustumTest 21]\<rparr>)"
  using gatherSurfaces_early_outs [of 0
      "\<lparr>nodelist = [\<lparr>node_bbox = 1::nat, child0 = - 1, child1 = - 2\<rparr>],
       leaflist = [\<lparr>leaf_bbox = 2, cluster = 0, leaf_surfaces = [3, 4]\<rparr>,
                   \<lparr>leaf_bbox = 20, cluster = 1, leaf_surfaces = [5]\<rparr>],
       visibility_pvs = [], findLeafForPoint = (\<lambda>u::unit. None)\<rparr>"
      "\<lambda>b. b < 10" "\<lambda>b. b + 1" "Suc 0" "[True, True]"
      "\<lparr>liveSurfaceSet = Some {}, liveLeafSet = Some {}, scratchAABB = 0, probes = []\<rparr>"]
  by (simp add: getBit_def insert_commute)

text \<open>
  Claim C9. \<open>calcPVS\<close> returns \<open>false\<close> in exactly three cases: PVS rendering is
  disabled, no leaf is found for the camera position, or the leaf's cluster is
  \<open>0xFFFF\<close>. Whenever it returns \<open>false\<close> the bitmap is as it was before the call.
  (With a valid cluster the bitmap is cleared before the cluster's row of the
  visibility table is read; if the table has no such row the call raises and
  returns neither value.)
\<close>

theorem calcPVS_false_keeps_bitmap:
  "(fst (calcPVS pvsEnabled bsp pvs cameraPos) = Inr False \<longleftrightarrow>
      (\<not> pvsEnabled \<or> findLeafForPoint bsp cameraPos = None
        \<or> (\<exists>leaf. findLeafForPoint bsp cameraPos = Some leaf \<and> cluster leaf = 0xFFFF)))
   \<and> (fst (calcPVS pvsEnabled bsp pvs cameraPos) = Inr False \<longrightarrow>
        snd (calcPVS pvsEnabled bsp pvs cameraPos) = pvs)"
  by (auto simp: calcPVS_def Let_def split: option.splits)

theorem calcPVS_false_keeps_bitmap_witness:
  "fst (calcPVS True \<lparr>nodelist = [], leaflist = [],
          visibility_pvs = [[True, True, True]],
          findLeafForPoint = (\<lambda>p::nat. Some \<lparr>leaf_bbox = (0::nat), cluster = 0xFFFF, leaf_surfaces = []\<rparr>)\<rparr>
        [True, False, True] 7) = Inr False
   \<and> snd (calcPVS True \<lparr>nodelist = [], leaflist = [],
          visibility_pvs = [[True, True, True]],
          findLeafForPoint = (\<lambda>p::nat. Some \<lparr>leaf_bbox = (0::nat), cluster = 0xFFFF, leaf_surfaces = []\<rparr>)\<rparr>
        [True, False, True] 7) = [True, False, True]"
  using calcPVS_false_keeps_bitmap [of True "\<lparr>nodelist = [], leaflist = [],
          visibility_pvs = [[True, True, True]],
          findLeafForPoint = (\<lambda>p::nat. Some \<lparr>leaf_bbox = (0::nat), cluster = 0xFFFF, leaf_surfaces = []\<rparr>)\<rparr>"
        "[True, False, True]" 7]
  by simp

section \<open>Verified properties: skeletal pipeline\<close>

subsection \<open>Array and matrix facts\<close>

lemma js_get_js_set: "js_get (js_set xs i v) k = (if k = i then v else js_get xs k)"
  by (auto simp: js_get_def js_set_def nth_append)

lemma upt16: "[0..<16] = [0,1,2,3,4,5,6,7,8,9,10,11,12,13,14,15]"
  by (simp add: upt_rec)

lemma exact_simps [simp]:
  "js_plus exact = (+)" "js_times exact = (*)"
  "js_less exact = (<)" "js_ge exact = (\<ge>)" "fround exact = (\<lambda>x. x)" "EPSILON exact = 1 / 1000000"
  by (simp_all add: exact_def)





subsection \<open>The weight entries\<close>






lemma round_sig_0 [simp]: "round_sig p 0 = 0"
  by (simp add: round_sig_def)














subsection \<open>The shape draw loop\<close>

lemma updateMatrixTable_slots:
  "updateMatrixTable ar modelView sis tbl i0 (st, nu) = Inr (st', nu') \<Longrightarrow>
     length (u_PosMtx st') = length (u_PosMtx st)
     \<and> calls st' = calls st \<and> drawCallCount st' = drawCallCount st
     \<and> (\<forall>j < length tbl. tbl ! j \<noteq> 0xFFFF \<longrightarrow>
           i0 + j < length (u_PosMtx st')
           \<and> u_PosMtx st' ! (i0 + j) = mat4_mul ar modelView (matrixArray sis ! unat (tbl ! j))
           \<and> js_get (posMtxVisibility st') (i0 + j) = js_get (matrixVisibility sis) (unat (tbl ! j)))
     \<and> (\<forall>k. (k < i0 \<or> i0 + length tbl \<le> k \<or> tbl ! (k - i0) = 0xFFFF) \<longrightarrow>
           u_PosMtx st' ! k = u_PosMtx st ! k
           \<and> js_get (posMtxVisibility st') k = js_get (posMtxVisibility st) k)"
proof (induction tbl arbitrary: i0 st nu)
  case Nil
  then show ?case by simp
next
  case (Cons m rest)
  show ?case
  proof (cases "m = 0xFFFF")
    case True
    with Cons.prems have r: "updateMatrixTable ar modelView sis rest (Suc i0) (st, nu) = Inr (st', nu')"
      by simp
    note ih = Cons.IH [OF r]
    show ?thesis
    proof (intro conjI allI impI)
      fix j assume j: "j < length (m # rest)" and ne: "(m # rest) ! j \<noteq> 0xFFFF"
      with True obtain j' where j': "j = Suc j'" by (cases j) auto
      with j ne ih show "i0 + j < length (u_PosMtx st')"
        "u_PosMtx st' ! (i0 + j) = mat4_mul ar modelView (matrixArray sis ! unat ((m # rest) ! j))"
        "js_get (posMtxVisibility st') (i0 + j) = js_get (matrixVisibility sis) (unat ((m # rest) ! j))"
        by auto
    next
      fix k assume k: "k < i0 \<or> i0 + length (m # rest) \<le> k \<or> (m # rest) ! (k - i0) = 0xFFFF"
      have "k < Suc i0 \<or> Suc i0 + length rest \<le> k \<or> rest ! (k - Suc i0) = 0xFFFF"
      proof (cases "k \<le> i0")
        case True then show ?thesis by simp
      next
        case False
        then obtain d where d: "k - i0 = Suc d" by (cases "k - i0") auto
        then have "k - Suc i0 = d" by simp
        with d k False show ?thesis by auto
      qed
      with ih show "u_PosMtx st' ! k = u_PosMtx st ! k"
        "js_get (posMtxVisibility st') k = js_get (posMtxVisibility st) k" by auto
    qed (use ih in auto)
  next
    case False
    let ?st1 = "st\<lparr>posMtxVisibility := js_set (posMtxVisibility st) i0
                          (js_get (matrixVisibility sis) (unat m))\<rparr>"
    let ?st2 = "?st1\<lparr>u_PosMtx := (u_PosMtx ?st1)[i0 := mat4_mul ar modelView (matrixArray sis ! unat m)]\<rparr>"
    from False Cons.prems have ok: "unat m < length (matrixArray sis)" "i0 < length (u_PosMtx st)"
      and r: "updateMatrixTable ar modelView sis rest (Suc i0) (?st2, True) = Inr (st', nu')"
      by (auto simp: Let_def split: if_splits)
    note ih = Cons.IH [OF r]
    have keep: "u_PosMtx st' ! i0 = mat4_mul ar modelView (matrixArray sis ! unat m)"
      "js_get (posMtxVisibility st') i0 = js_get (matrixVisibility sis) (unat m)"
      using ih ok by (auto simp: js_get_js_set)
    show ?thesis
    proof (intro conjI allI impI)
      fix j assume j: "j < length (m # rest)" and ne: "(m # rest) ! j \<noteq> 0xFFFF"
      show "i0 + j < length (u_PosMtx st')"
        using j ne ih ok by (cases j) auto
      show "u_PosMtx st' ! (i0 + j) = mat4_mul ar modelView (matrixArray sis ! unat ((m # rest) ! j))"
        using j ne ih keep by (cases j) auto
      show "js_get (posMtxVisibility st') (i0 + j) = js_get (matrixVisibility sis) (unat ((m # rest) ! j))"
        using j ne ih keep by (cases j) auto
    next
      fix k assume k: "k < i0 \<or> i0 + length (m # rest) \<le> k \<or> (m # rest) ! (k - i0) = 0xFFFF"
      have kne: "k \<noteq> i0" using k False by auto
      have "k < Suc i0 \<or> Suc i0 + length rest \<le> k \<or> rest ! (k - Suc i0) = 0xFFFF"
      proof (cases "k \<le> i0")
        case True then show ?thesis by simp
      next
        case False
        then obtain d where d: "k - i0 = Suc d" by (cases "k - i0") auto
        then have "k - Suc i0 = d" by simp
        with d k False show ?thesis by auto
      qed
      with ih kne show "u_PosMtx st' ! k = u_PosMtx st ! k"
        "js_get (posMtxVisibility st') k = js_get (posMtxVisibility st) k"
        by (auto simp: js_get_js_set)
    qed (use ih in auto)
  qed
qed

text \<open>
  Claim C5, evaluated where the code departs from it. A shape has two packets. The
  first refers in all ten slots to a matrix that is \<open>FULLY_OUTSIDE\<close>; the second
  refers in slot 0 to a matrix that is \<open>FULLY_INSIDE\<close>. Drawing the shape issues no
  call at all: the cull of the first packet returns from \<open>draw\<close>, so the second
  packet is never examined and the draw-call counter is not advanced. The second
  conjunct draws a shape made of the second packet alone from the state the first
  packet leaves behind (ten slots that are \<open>FULLY_OUTSIDE\<close>): that packet is
  uploaded and drawn.
\<close>

theorem culled_packet_ends_draw:
  "(case draw exact mat4_identity
           \<lparr>matrixArray = [mat4_identity, mat4_identity],
            matrixVisibility = [Some FULLY_OUTSIDE, Some FULLY_INSIDE]\<rparr>
           [[0, 0, 0, 0, 0, 0, 0, 0, 0, 0],
            [1, 0xFFFF, 0xFFFF, 0xFFFF, 0xFFFF, 0xFFFF, 0xFFFF, 0xFFFF, 0xFFFF, 0xFFFF]]
           \<lparr>u_PosMtx = [mat4_identity, mat4_identity, mat4_identity, mat4_identity, mat4_identity, mat4_identity, mat4_identity, mat4_identity, mat4_identity, mat4_identity],
            posMtxVisibility = [Some FULLY_INSIDE, Some FULLY_INSIDE, Some FULLY_INSIDE, Some FULLY_INSIDE, Some FULLY_INSIDE, Some FULLY_INSIDE, Some FULLY_INSIDE, Some FULLY_INSIDE, Some FULLY_INSIDE, Some FULLY_INSIDE],
            calls = [], drawCallCount = 0\<rparr> of
      Inl e \<Rightarrow> False
    | Inr st' \<Rightarrow> calls st' = [] \<and> drawCallCount st' = 0)
   \<and> (case draw exact mat4_identity
           \<lparr>matrixArray = [mat4_identity, mat4_identity],
            matrixVisibility = [Some FULLY_OUTSIDE, Some FULLY_INSIDE]\<rparr>
           [[1, 0xFFFF, 0xFFFF, 0xFFFF, 0xFFFF, 0xFFFF, 0xFFFF, 0xFFFF, 0xFFFF, 0xFFFF]]
           \<lparr>u_PosMtx = [mat4_identity, mat4_identity, mat4_identity, mat4_identity, mat4_identity, mat4_identity, mat4_identity, mat4_identity, mat4_identity, mat4_identity],
            posMtxVisibility = [Some FULLY_OUTSIDE, Some FULLY_OUTSIDE, Some FULLY_OUTSIDE, Some FULLY_OUTSIDE, Some FULLY_OUTSIDE, Some FULLY_OUTSIDE, Some FULLY_OUTSIDE, Some FULLY_OUTSIDE, Some FULLY_OUTSIDE, Some FULLY_OUTSIDE],
            calls = [], drawCallCount = 0\<rparr> of
      Inl e \<Rightarrow> False
    | Inr st' \<Rightarrow> calls st' = [BindPacketParams [mat4_identity, mat4_identity, mat4_identity, mat4_identity, mat4_identity, mat4_identity, mat4_identity, mat4_identity, mat4_identity, mat4_identity], DrawSimple 0] \<and> drawCallCount st' = 1)"
  by (simp add: draw_def frustumCull_def js_get_def js_set_def mat4_mul_def mat4_identity_def upt16)

text \<open>
  Claim C6. Processing one packet's matrix table, from whatever the uniform slots
  hold after earlier packets and earlier draws: a slot whose table entry is
  \<open>0xFFFF\<close> keeps its matrix and its visibility; a slot whose table entry is another
  index receives \<open>modelView \<cdot> matrixArray[index]\<close> and that matrix's visibility; slots
  beyond the table keep their contents. \<open>0xFFFF\<close> is the 16-bit value with every
  bit set.
\<close>

theorem sentinel_keeps_uniform_slot:
  assumes "updateMatrixTable ar modelView sis matrixTable 0 (st, needsUpload) = Inr (st', needsUpload')"
  shows "(\<forall>i < length matrixTable. matrixTable ! i = 0xFFFF \<longrightarrow>
            u_PosMtx st' ! i = u_PosMtx st ! i
            \<and> js_get (posMtxVisibility st') i = js_get (posMtxVisibility st) i)
     \<and> (\<forall>i < length matrixTable. matrixTable ! i \<noteq> 0xFFFF \<longrightarrow>
            u_PosMtx st' ! i = mat4_mul ar modelView (matrixArray sis ! unat (matrixTable ! i))
            \<and> js_get (posMtxVisibility st') i = js_get (matrixVisibility sis) (unat (matrixTable ! i)))
     \<and> (\<forall>i \<ge> length matrixTable.
            u_PosMtx st' ! i = u_PosMtx st ! i
            \<and> js_get (posMtxVisibility st') i = js_get (posMtxVisibility st) i)
     \<and> length (u_PosMtx st') = length (u_PosMtx st)
     \<and> (\<forall>n < 16. bit (0xFFFF :: 16 word) n)"
proof -
  note s = updateMatrixTable_slots [OF assms]
  have bits: "\<forall>n < 16. bit (0xFFFF :: 16 word) n"
  proof -
    have m1: "(0xFFFF :: 16 word) = - 1" by simp
    have "\<forall>n<16. bit (- 1 :: 16 word) n" by (simp only: bit_minus_1_iff) simp
    then show ?thesis by (simp only: m1)
  qed
  from s bits show ?thesis by simp
qed

theorem sentinel_keeps_uniform_slot_witness:
  "updateMatrixTable exact mat4_identity
      \<lparr>matrixArray = [mat4_identity, [1,2,3,4,5,6,7,8,9,10,11,12,13,14,15,16]], matrixVisibility = [Some FULLY_INSIDE, Some FULLY_OUTSIDE]\<rparr>
      [0xFFFF, 1] 0
      (\<lparr>u_PosMtx = [[2,2,2,2,2,2,2,2,2,2,2,2,2,2,2,2], mat4_identity], posMtxVisibility = [Some PARTIAL_INTERSECT, Some FULLY_INSIDE], calls = [], drawCallCount = 0\<rparr>, False)
    = Inr (\<lparr>u_PosMtx = [[2,2,2,2,2,2,2,2,2,2,2,2,2,2,2,2], [1,2,3,4,5,6,7,8,9,10,11,12,13,14,15,16]], posMtxVisibility = [Some PARTIAL_INTERSECT, Some FULLY_OUTSIDE], calls = [], drawCallCount = 0\<rparr>, True)
   \<and> draw exact mat4_identity
      \<lparr>matrixArray = [[1,2,3,4,5,6,7,8,9,10,11,12,13,14,15,16]], matrixVisibility = [Some FULLY_INSIDE]\<rparr>
      [[0]]
      \<lparr>u_PosMtx = [mat4_identity], posMtxVisibility = [Some FULLY_INSIDE], calls = [], drawCallCount = 0\<rparr>
    = Inr \<lparr>u_PosMtx = [[1,2,3,4,5,6,7,8,9,10,11,12,13,14,15,16]], posMtxVisibility = [Some FULLY_INSIDE], calls = [BindPacketParams [[1,2,3,4,5,6,7,8,9,10,11,12,13,14,15,16]], DrawSimple 0], drawCallCount = 1\<rparr>
   \<and> draw exact mat4_identity
      \<lparr>matrixArray = [mat4_identity], matrixVisibility = [Some PARTIAL_INTERSECT]\<rparr>
      [[0xFFFF]]
      \<lparr>u_PosMtx = [[1,2,3,4,5,6,7,8,9,10,11,12,13,14,15,16]], posMtxVisibility = [Some FULLY_INSIDE], calls = [BindPacketParams [[1,2,3,4,5,6,7,8,9,10,11,12,13,14,15,16]], DrawSimple 0], drawCallCount = 1\<rparr>
    = Inr \<lparr>u_PosMtx = [[1,2,3,4,5,6,7,8,9,10,11,12,13,14,15,16]], posMtxVisibility = [Some FULLY_INSIDE], calls = [BindPacketParams [[1,2,3,4,5,6,7,8,9,10,11,12,13,14,15,16]], DrawSimple 0, DrawSimple 0], drawCallCount = 2\<rparr>"
proof -
  have run: "updateMatrixTable exact mat4_identity
      \<lparr>matrixArray = [mat4_identity, [1,2,3,4,5,6,7,8,9,10,11,12,13,14,15,16]], matrixVisibility = [Some FULLY_INSIDE, Some FULLY_OUTSIDE]\<rparr>
      [0xFFFF, 1] 0
      (\<lparr>u_PosMtx = [[2,2,2,2,2,2,2,2,2,2,2,2,2,2,2,2], mat4_identity], posMtxVisibility = [Some PARTIAL_INTERSECT, Some FULLY_INSIDE], calls = [], drawCallCount = 0\<rparr>, False)
    = Inr (\<lparr>u_PosMtx = [[2,2,2,2,2,2,2,2,2,2,2,2,2,2,2,2], [1,2,3,4,5,6,7,8,9,10,11,12,13,14,15,16]], posMtxVisibility = [Some PARTIAL_INTERSECT, Some FULLY_OUTSIDE], calls = [], drawCallCount = 0\<rparr>, True)"
    by (simp add: js_get_def js_set_def mat4_mul_def mat4_identity_def upt16)
  have draw1: "draw exact mat4_identity
      \<lparr>matrixArray = [[1,2,3,4,5,6,7,8,9,10,11,12,13,14,15,16]], matrixVisibility = [Some FULLY_INSIDE]\<rparr>
      [[0]]
      \<lparr>u_PosMtx = [mat4_identity], posMtxVisibility = [Some FULLY_INSIDE], calls = [], drawCallCount = 0\<rparr>
    = Inr \<lparr>u_PosMtx = [[1,2,3,4,5,6,7,8,9,10,11,12,13,14,15,16]], posMtxVisibility = [Some FULLY_INSIDE], calls = [BindPacketParams [[1,2,3,4,5,6,7,8,9,10,11,12,13,14,15,16]], DrawSimple 0], drawCallCount = 1\<rparr>"
    by (simp add: draw_def frustumCull_def js_get_def js_set_def mat4_mul_def mat4_identity_def upt16)
  have draw2: "draw exact mat4_identity
      \<lparr>matrixArray = [mat4_identity], matrixVisibility = [Some PARTIAL_INTERSECT]\<rparr>
      [[0xFFFF]]
      \<lparr>u_PosMtx = [[1,2,3,4,5,6,7,8,9,10,11,12,13,14,15,16]], posMtxVisibility = [Some FULLY_INSIDE], calls = [BindPacketParams [[1,2,3,4,5,6,7,8,9,10,11,12,13,14,15,16]], DrawSimple 0], drawCallCount = 1\<rparr>
    = Inr \<lparr>u_PosMtx = [[1,2,3,4,5,6,7,8,9,10,11,12,13,14,15,16]], posMtxVisibility = [Some FULLY_INSIDE], calls = [BindPacketParams [[1,2,3,4,5,6,7,8,9,10,11,12,13,14,15,16]], DrawSimple 0, DrawSimple 0], drawCallCount = 2\<rparr>"
    by (simp add: draw_def frustumCull_def)
  from sentinel_keeps_uniform_slot [OF run] run draw1 draw2 show ?thesis by simp
qed

section \<open>Verified properties: entity system\<close>

subsection \<open>Firing outputs\<close>




subsection \<open>What a handler can do to the entity system\<close>


lemma queues_only_weaken:
  assumes "queues_only ar P es es'" "\<And>x. P x \<Longrightarrow> Q x"
  shows "queues_only ar Q es es'"
  using assms unfolding queues_only_def by (elim conjE exE) (intro conjI exI, assumption+, blast)



lemma moveDone_eq:
  "moveDone ar this es =
     (this, fire ar (if toggleState this = GoingToTop then output_onFullyOpen this
                  else if toggleState this = GoingToBottom then output_onFullyClosed this
                  else []) es [])"
  by (simp add: moveDone_def hitTop_def hitBottom_def)


lemma BaseToggle_movement_door:
  "\<exists>acts. set acts \<subseteq> set (output_onFullyOpen this) \<union> set (output_onFullyClosed this)
     \<and> snd (BaseToggle_movement (moveDone ar) this es dt) = fire ar acts es []
     \<and> output_onClose (fst (BaseToggle_movement (moveDone ar) this es dt)) = output_onClose this
     \<and> output_onOpen (fst (BaseToggle_movement (moveDone ar) this es dt)) = output_onOpen this
     \<and> output_onFullyClosed (fst (BaseToggle_movement (moveDone ar) this es dt)) = output_onFullyClosed this
     \<and> output_onFullyOpen (fst (BaseToggle_movement (moveDone ar) this es dt)) = output_onFullyOpen this
     \<and> targetName (fst (BaseToggle_movement (moveDone ar) this es dt)) = targetName this
     \<and> toggleState (fst (BaseToggle_movement (moveDone ar) this es dt)) = toggleState this"
proof (cases "js_gt0 (timeLeftInSeconds this) \<and> js_le0 (js_sub (timeLeftInSeconds this) dt)")
  case True
  then show ?thesis
    by (intro exI [of _ "if toggleState this = GoingToTop then output_onFullyOpen this
                  else if toggleState this = GoingToBottom then output_onFullyClosed this
                  else []"])
       (auto simp add: BaseToggle_movement_def Let_def moveDone_eq)
next
  case False
  then show ?thesis
    by (intro exI [of _ "[]"]) (auto simp add: BaseToggle_movement_def Let_def)
qed








subsection \<open>Dispatching one event\<close>









subsection \<open>Draining the queue\<close>







subsection \<open>One tick\<close>









subsection \<open>func\_door and math\_counter\<close>

text \<open>
  Claim C7, evaluated where the code departs from it. A closed, unlocked door at the
  origin with its open position 100 units away and speed 100 receives \<open>open\<close>: the
  state becomes \<open>GoingToTop\<close>, the velocity is 100 units per second towards the open
  position, and the \<open>onOpen\<close> action is queued at once. After two half-second
  ticks the door is at the open position, its movement has stopped and the
  \<open>onFullyOpen\<close> action has been queued, but the state is still \<open>GoingToTop\<close>, not
  \<open>Top\<close>; a \<open>toggle\<close> input then does nothing. No call of \<open>movement\<close> changes the
  toggle state of any door.
\<close>

theorem door_stays_GoingToTop:
  "input_open exact
      \<lparr>localOrigin = (0, 0, 0), targetName = Some ''door'', alive = True, enabled = True, speed = 100, positionOpened = (100, 0, 0), positionClosed = (0, 0, 0), timeLeftInSeconds = Num 0, positionTarget = (0, 0, 0), velocityPerSecond = (0, 0, 0), output_onClose = [], output_onOpen = [\<lparr>a_targetName = ''relay'', a_inputName = ''trigger'', parameterOverride = '''', delay = 0, timesToFire = - 1\<rparr>], output_onFullyClosed = [], output_onFullyOpen = [\<lparr>a_targetName = ''light'', a_inputName = ''enable'', parameterOverride = '''', delay = 0, timesToFire = - 1\<rparr>], locked = False, toggleState = Bottom\<rparr>
      \<lparr>entities = [], currentTime = 7, outputQueue = [], dispatched = [], inputLog = []\<rparr>
    = (\<lparr>localOrigin = (0, 0, 0), targetName = Some ''door'', alive = True, enabled = True, speed = 100, positionOpened = (100, 0, 0), positionClosed = (0, 0, 0), timeLeftInSeconds = Num 1, positionTarget = (100, 0, 0), velocityPerSecond = (100, 0, 0), output_onClose = [], output_onOpen = [\<lparr>a_targetName = ''relay'', a_inputName = ''trigger'', parameterOverride = '''', delay = 0, timesToFire = - 1\<rparr>], output_onFullyClosed = [], output_onFullyOpen = [\<lparr>a_targetName = ''light'', a_inputName = ''enable'', parameterOverride = '''', delay = 0, timesToFire = - 1\<rparr>], locked = False, toggleState = GoingToTop\<rparr>,
       \<lparr>entities = [], currentTime = 7, outputQueue = [\<lparr>triggerTime = 7, action = \<lparr>a_targetName = ''relay'', a_inputName = ''trigger'', parameterOverride = '''', delay = 0, timesToFire = - 1\<rparr>, ev_value = ''''\<rparr>], dispatched = [], inputLog = []\<rparr>)
   \<and> BaseToggle_movement (moveDone exact)
      \<lparr>localOrigin = (0, 0, 0), targetName = Some ''door'', alive = True, enabled = True, speed = 100, positionOpened = (100, 0, 0), positionClosed = (0, 0, 0), timeLeftInSeconds = Num 1, positionTarget = (100, 0, 0), velocityPerSecond = (100, 0, 0), output_onClose = [], output_onOpen = [\<lparr>a_targetName = ''relay'', a_inputName = ''trigger'', parameterOverride = '''', delay = 0, timesToFire = - 1\<rparr>], output_onFullyClosed = [], output_onFullyOpen = [\<lparr>a_targetName = ''light'', a_inputName = ''enable'', parameterOverride = '''', delay = 0, timesToFire = - 1\<rparr>], locked = False, toggleState = GoingToTop\<rparr>
      \<lparr>entities = [], currentTime = 7, outputQueue = [\<lparr>triggerTime = 7, action = \<lparr>a_targetName = ''relay'', a_inputName = ''trigger'', parameterOverride = '''', delay = 0, timesToFire = - 1\<rparr>, ev_value = ''''\<rparr>], dispatched = [], inputLog = []\<rparr> (1 / 2)
    = (\<lparr>localOrigin = (50, 0, 0), targetName = Some ''door'', alive = True, enabled = True, speed = 100, positionOpened = (100, 0, 0), positionClosed = (0, 0, 0), timeLeftInSeconds = Num (1 / 2), positionTarget = (100, 0, 0), velocityPerSecond = (100, 0, 0), output_onClose = [], output_onOpen = [\<lparr>a_targetName = ''relay'', a_inputName = ''trigger'', parameterOverride = '''', delay = 0, timesToFire = - 1\<rparr>], output_onFullyClosed = [], output_onFullyOpen = [\<lparr>a_targetName = ''light'', a_inputName = ''enable'', parameterOverride = '''', delay = 0, timesToFire = - 1\<rparr>], locked = False, toggleState = GoingToTop\<rparr>,
       \<lparr>entities = [], currentTime = 7, outputQueue = [\<lparr>triggerTime = 7, action = \<lparr>a_targetName = ''relay'', a_inputName = ''trigger'', parameterOverride = '''', delay = 0, timesToFire = - 1\<rparr>, ev_value = ''''\<rparr>], dispatched = [], inputLog = []\<rparr>)
   \<and> BaseToggle_movement (moveDone exact)
      \<lparr>localOrigin = (50, 0, 0), targetName = Some ''door'', alive = True, enabled = True, speed = 100, positionOpened = (100, 0, 0), positionClosed = (0, 0, 0), timeLeftInSeconds = Num (1 / 2), positionTarget = (100, 0, 0), velocityPerSecond = (100, 0, 0), output_onClose = [], output_onOpen = [\<lparr>a_targetName = ''relay'', a_inputName = ''trigger'', parameterOverride = '''', delay = 0, timesToFire = - 1\<rparr>], output_onFullyClosed = [], output_onFullyOpen = [\<lparr>a_targetName = ''light'', a_inputName = ''enable'', parameterOverride = '''', delay = 0, timesToFire = - 1\<rparr>], locked = False, toggleState = GoingToTop\<rparr>
      \<lparr>entities = [], currentTime = 7, outputQueue = [\<lparr>triggerTime = 7, action = \<lparr>a_targetName = ''relay'', a_inputName = ''trigger'', parameterOverride = '''', delay = 0, timesToFire = - 1\<rparr>, ev_value = ''''\<rparr>], dispatched = [], inputLog = []\<rparr> (1 / 2)
    = (\<lparr>localOrigin = (100, 0, 0), targetName = Some ''door'', alive = True, enabled = True, speed = 100, positionOpened = (100, 0, 0), positionClosed = (0, 0, 0), timeLeftInSeconds = Num 0, positionTarget = (100, 0, 0), velocityPerSecond = (0, 0, 0), output_onClose = [], output_onOpen = [\<lparr>a_targetName = ''relay'', a_inputName = ''trigger'', parameterOverride = '''', delay = 0, timesToFire = - 1\<rparr>], output_onFullyClosed = [], output_onFullyOpen = [\<lparr>a_targetName = ''light'', a_inputName = ''enable'', parameterOverride = '''', delay = 0, timesToFire = - 1\<rparr>], locked = False, toggleState = GoingToTop\<rparr>,
       \<lparr>entities = [], currentTime = 7, outputQueue = [\<lparr>triggerTime = 7, action = \<lparr>a_targetName = ''relay'', a_inputName = ''trigger'', parameterOverride = '''', delay = 0, timesToFire = - 1\<rparr>, ev_value = ''''\<rparr>, \<lparr>triggerTime = 7, action = \<lparr>a_targetName = ''light'', a_inputName = ''enable'', parameterOverride = '''', delay = 0, timesToFire = - 1\<rparr>, ev_value = ''''\<rparr>], dispatched = [], inputLog = []\<rparr>)
   \<and> toggleState
      \<lparr>localOrigin = (100, 0, 0), targetName = Some ''door'', alive = True, enabled = True, speed = 100, positionOpened = (100, 0, 0), positionClosed = (0, 0, 0), timeLeftInSeconds = Num 0, positionTarget = (100, 0, 0), velocityPerSecond = (0, 0, 0), output_onClose = [], output_onOpen = [\<lparr>a_targetName = ''relay'', a_inputName = ''trigger'', parameterOverride = '''', delay = 0, timesToFire = - 1\<rparr>], output_onFullyClosed = [], output_onFullyOpen = [\<lparr>a_targetName = ''light'', a_inputName = ''enable'', parameterOverride = '''', delay = 0, timesToFire = - 1\<rparr>], locked = False, toggleState = GoingToTop\<rparr> \<noteq> Top
   \<and> input_toggle exact
      \<lparr>localOrigin = (100, 0, 0), targetName = Some ''door'', alive = True, enabled = True, speed = 100, positionOpened = (100, 0, 0), positionClosed = (0, 0, 0), timeLeftInSeconds = Num 0, positionTarget = (100, 0, 0), velocityPerSecond = (0, 0, 0), output_onClose = [], output_onOpen = [\<lparr>a_targetName = ''relay'', a_inputName = ''trigger'', parameterOverride = '''', delay = 0, timesToFire = - 1\<rparr>], output_onFullyClosed = [], output_onFullyOpen = [\<lparr>a_targetName = ''light'', a_inputName = ''enable'', parameterOverride = '''', delay = 0, timesToFire = - 1\<rparr>], locked = False, toggleState = GoingToTop\<rparr>
      \<lparr>entities = [], currentTime = 7, outputQueue = [\<lparr>triggerTime = 7, action = \<lparr>a_targetName = ''relay'', a_inputName = ''trigger'', parameterOverride = '''', delay = 0, timesToFire = - 1\<rparr>, ev_value = ''''\<rparr>, \<lparr>triggerTime = 7, action = \<lparr>a_targetName = ''light'', a_inputName = ''enable'', parameterOverride = '''', delay = 0, timesToFire = - 1\<rparr>, ev_value = ''''\<rparr>], dispatched = [], inputLog = []\<rparr>
    = (\<lparr>localOrigin = (100, 0, 0), targetName = Some ''door'', alive = True, enabled = True, speed = 100, positionOpened = (100, 0, 0), positionClosed = (0, 0, 0), timeLeftInSeconds = Num 0, positionTarget = (100, 0, 0), velocityPerSecond = (0, 0, 0), output_onClose = [], output_onOpen = [\<lparr>a_targetName = ''relay'', a_inputName = ''trigger'', parameterOverride = '''', delay = 0, timesToFire = - 1\<rparr>], output_onFullyClosed = [], output_onFullyOpen = [\<lparr>a_targetName = ''light'', a_inputName = ''enable'', parameterOverride = '''', delay = 0, timesToFire = - 1\<rparr>], locked = False, toggleState = GoingToTop\<rparr>,
       \<lparr>entities = [], currentTime = 7, outputQueue = [\<lparr>triggerTime = 7, action = \<lparr>a_targetName = ''relay'', a_inputName = ''trigger'', parameterOverride = '''', delay = 0, timesToFire = - 1\<rparr>, ev_value = ''''\<rparr>, \<lparr>triggerTime = 7, action = \<lparr>a_targetName = ''light'', a_inputName = ''enable'', parameterOverride = '''', delay = 0, timesToFire = - 1\<rparr>, ev_value = ''''\<rparr>], dispatched = [], inputLog = []\<rparr>)
   \<and> (\<forall>ar this es dt. toggleState (fst (BaseToggle_movement (moveDone ar) this es dt)) = toggleState this)"
proof -
  have sq: "sqrt 10000 = 100"
    by (rule real_sqrt_unique) simp_all
  have general: "\<forall>ar this es dt. toggleState (fst (BaseToggle_movement (moveDone ar) this es dt)) = toggleState this"
    using BaseToggle_movement_door by blast
  have run: "input_open exact
      \<lparr>localOrigin = (0, 0, 0), targetName = Some ''door'', alive = True, enabled = True, speed = 100, positionOpened = (100, 0, 0), positionClosed = (0, 0, 0), timeLeftInSeconds = Num 0, positionTarget = (0, 0, 0), velocityPerSecond = (0, 0, 0), output_onClose = [], output_onOpen = [\<lparr>a_targetName = ''relay'', a_inputName = ''trigger'', parameterOverride = '''', delay = 0, timesToFire = - 1\<rparr>], output_onFullyClosed = [], output_onFullyOpen = [\<lparr>a_targetName = ''light'', a_inputName = ''enable'', parameterOverride = '''', delay = 0, timesToFire = - 1\<rparr>], locked = False, toggleState = Bottom\<rparr>
      \<lparr>entities = [], currentTime = 7, outputQueue = [], dispatched = [], inputLog = []\<rparr>
    = (\<lparr>localOrigin = (0, 0, 0), targetName = Some ''door'', alive = True, enabled = True, speed = 100, positionOpened = (100, 0, 0), positionClosed = (0, 0, 0), timeLeftInSeconds = Num 1, positionTarget = (100, 0, 0), velocityPerSecond = (100, 0, 0), output_onClose = [], output_onOpen = [\<lparr>a_targetName = ''relay'', a_inputName = ''trigger'', parameterOverride = '''', delay = 0, timesToFire = - 1\<rparr>], output_onFullyClosed = [], output_onFullyOpen = [\<lparr>a_targetName = ''light'', a_inputName = ''enable'', parameterOverride = '''', delay = 0, timesToFire = - 1\<rparr>], locked = False, toggleState = GoingToTop\<rparr>,
       \<lparr>entities = [], currentTime = 7, outputQueue = [\<lparr>triggerTime = 7, action = \<lparr>a_targetName = ''relay'', a_inputName = ''trigger'', parameterOverride = '''', delay = 0, timesToFire = - 1\<rparr>, ev_value = ''''\<rparr>], dispatched = [], inputLog = []\<rparr>)
   \<and> BaseToggle_movement (moveDone exact)
      \<lparr>localOrigin = (0, 0, 0), targetName = Some ''door'', alive = True, enabled = True, speed = 100, positionOpened = (100, 0, 0), positionClosed = (0, 0, 0), timeLeftInSeconds = Num 1, positionTarget = (100, 0, 0), velocityPerSecond = (100, 0, 0), output_onClose = [], output_onOpen = [\<lparr>a_targetName = ''relay'', a_inputName = ''trigger'', parameterOverride = '''', delay = 0, timesToFire = - 1\<rparr>], output_onFullyClosed = [], output_onFullyOpen = [\<lparr>a_targetName = ''light'', a_inputName = ''enable'', parameterOverride = '''', delay = 0, timesToFire = - 1\<rparr>], locked = False, toggleState = GoingToTop\<rparr>
      \<lparr>entities = [], currentTime = 7, outputQueue = [\<lparr>triggerTime = 7, action = \<lparr>a_targetName = ''relay'', a_inputName = ''trigger'', parameterOverride = '''', delay = 0, timesToFire = - 1\<rparr>, ev_value = ''''\<rparr>], dispatched = [], inputLog = []\<rparr> (1 / 2)
    = (\<lparr>localOrigin = (50, 0, 0), targetName = Some ''door'', alive = True, enabled = True, speed = 100, positionOpened = (100, 0, 0), positionClosed = (0, 0, 0), timeLeftInSeconds = Num (1 / 2), positionTarget = (100, 0, 0), velocityPerSecond = (100, 0, 0), output_onClose = [], output_onOpen = [\<lparr>a_targetName = ''relay'', a_inputName = ''trigger'', parameterOverride = '''', delay = 0, timesToFire = - 1\<rparr>], output_onFullyClosed = [], output_onFullyOpen = [\<lparr>a_targetName = ''light'', a_inputName = ''enable'', parameterOverride = '''', delay = 0, timesToFire = - 1\<rparr>], locked = False, toggleState = GoingToTop\<rparr>,
       \<lparr>entities = [], currentTime = 7, outputQueue = [\<lparr>triggerTime = 7, action = \<lparr>a_targetName = ''relay'', a_inputName = ''trigger'', parameterOverride = '''', delay = 0, timesToFire = - 1\<rparr>, ev_value = ''''\<rparr>], dispatched = [], inputLog = []\<rparr>)
   \<and> BaseToggle_movement (moveDone exact)
      \<lparr>localOrigin = (50, 0, 0), targetName = Some ''door'', alive = True, enabled = True, speed = 100, positionOpened = (100, 0, 0), positionClosed = (0, 0, 0), timeLeftInSeconds = Num (1 / 2), positionTarget = (100, 0, 0), velocityPerSecond = (100, 0, 0), output_onClose = [], output_onOpen = [\<lparr>a_targetName = ''relay'', a_inputName = ''trigger'', parameterOverride = '''', delay = 0, timesToFire = - 1\<rparr>], output_onFullyClosed = [], output_onFullyOpen = [\<lparr>a_targetName = ''light'', a_inputName = ''enable'', parameterOverride = '''', delay = 0, timesToFire = - 1\<rparr>], locked = False, toggleState = GoingToTop\<rparr>
      \<lparr>entities = [], currentTime = 7, outputQueue = [\<lparr>triggerTime = 7, action = \<lparr>a_targetName = ''relay'', a_inputName = ''trigger'', parameterOverride = '''', delay = 0, timesToFire = - 1\<rparr>, ev_value = ''''\<rparr>], dispatched = [], inputLog = []\<rparr> (1 / 2)
    = (\<lparr>localOrigin = (100, 0, 0), targetName = Some ''door'', alive = True, enabled = True, speed = 100, positionOpened = (100, 0, 0), positionClosed = (0, 0, 0), timeLeftInSeconds = Num 0, positionTarget = (100, 0, 0), velocityPerSecond = (0, 0, 0), output_onClose = [], output_onOpen = [\<lparr>a_targetName = ''relay'', a_inputName = ''trigger'', parameterOverride = '''', delay = 0, timesToFire = - 1\<rparr>], output_onFullyClosed = [], output_onFullyOpen = [\<lparr>a_targetName = ''light'', a_inputName = ''enable'', parameterOverride = '''', delay = 0, timesToFire = - 1\<rparr>], locked = False, toggleState = GoingToTop\<rparr>,
       \<lparr>entities = [], currentTime = 7, outputQueue = [\<lparr>triggerTime = 7, action = \<lparr>a_targetName = ''relay'', a_inputName = ''trigger'', parameterOverride = '''', delay = 0, timesToFire = - 1\<rparr>, ev_value = ''''\<rparr>, \<lparr>triggerTime = 7, action = \<lparr>a_targetName = ''light'', a_inputName = ''enable'', parameterOverride = '''', delay = 0, timesToFire = - 1\<rparr>, ev_value = ''''\<rparr>], dispatched = [], inputLog = []\<rparr>)
   \<and> toggleState
      \<lparr>localOrigin = (100, 0, 0), targetName = Some ''door'', alive = True, enabled = True, speed = 100, positionOpened = (100, 0, 0), positionClosed = (0, 0, 0), timeLeftInSeconds = Num 0, positionTarget = (100, 0, 0), velocityPerSecond = (0, 0, 0), output_onClose = [], output_onOpen = [\<lparr>a_targetName = ''relay'', a_inputName = ''trigger'', parameterOverride = '''', delay = 0, timesToFire = - 1\<rparr>], output_onFullyClosed = [], output_onFullyOpen = [\<lparr>a_targetName = ''light'', a_inputName = ''enable'', parameterOverride = '''', delay = 0, timesToFire = - 1\<rparr>], locked = False, toggleState = GoingToTop\<rparr> \<noteq> Top
   \<and> input_toggle exact
      \<lparr>localOrigin = (100, 0, 0), targetName = Some ''door'', alive = True, enabled = True, speed = 100, positionOpened = (100, 0, 0), positionClosed = (0, 0, 0), timeLeftInSeconds = Num 0, positionTarget = (100, 0, 0), velocityPerSecond = (0, 0, 0), output_onClose = [], output_onOpen = [\<lparr>a_targetName = ''relay'', a_inputName = ''trigger'', parameterOverride = '''', delay = 0, timesToFire = - 1\<rparr>], output_onFullyClosed = [], output_onFullyOpen = [\<lparr>a_targetName = ''light'', a_inputName = ''enable'', parameterOverride = '''', delay = 0, timesToFire = - 1\<rparr>], locked = False, toggleState = GoingToTop\<rparr>
      \<lparr>entities = [], currentTime = 7, outputQueue = [\<lparr>triggerTime = 7, action = \<lparr>a_targetName = ''relay'', a_inputName = ''trigger'', parameterOverride = '''', delay = 0, timesToFire = - 1\<rparr>, ev_value = ''''\<rparr>, \<lparr>triggerTime = 7, action = \<lparr>a_targetName = ''light'', a_inputName = ''enable'', parameterOverride = '''', delay = 0, timesToFire = - 1\<rparr>, ev_value = ''''\<rparr>], dispatched = [], inputLog = []\<rparr>
    = (\<lparr>localOrigin = (100, 0, 0), targetName = Some ''door'', alive = True, enabled = True, speed = 100, positionOpened = (100, 0, 0), positionClosed = (0, 0, 0), timeLeftInSeconds = Num 0, positionTarget = (100, 0, 0), velocityPerSecond = (0, 0, 0), output_onClose = [], output_onOpen = [\<lparr>a_targetName = ''relay'', a_inputName = ''trigger'', parameterOverride = '''', delay = 0, timesToFire = - 1\<rparr>], output_onFullyClosed = [], output_onFullyOpen = [\<lparr>a_targetName = ''light'', a_inputName = ''enable'', parameterOverride = '''', delay = 0, timesToFire = - 1\<rparr>], locked = False, toggleState = GoingToTop\<rparr>,
       \<lparr>entities = [], currentTime = 7, outputQueue = [\<lparr>triggerTime = 7, action = \<lparr>a_targetName = ''relay'', a_inputName = ''trigger'', parameterOverride = '''', delay = 0, timesToFire = - 1\<rparr>, ev_value = ''''\<rparr>, \<lparr>triggerTime = 7, action = \<lparr>a_targetName = ''light'', a_inputName = ''enable'', parameterOverride = '''', delay = 0, timesToFire = - 1\<rparr>, ev_value = ''''\<rparr>], dispatched = [], inputLog = []\<rparr>)"
    by (simp add: input_open_def goToTop_def moveToTargetPos_def js_div_def sq Let_def
          BaseToggle_movement_def moveDone_def hitTop_def input_toggle_def queueEntityOutputAction_def)
  from run general show ?thesis by (simp only: simp_thms)
qed



end
